theory Spec2Isabelle
  imports Complex_Main
begin

section \<open>Python values used by \<open>pca_analysis.py\<close>\<close>

text \<open>
  The script is a Python program on top of numpy, pandas, scikit-learn and matplotlib.
  Exceptions are values of the type \<open>error\<close>; a function that can raise returns
  \<open>error + 'a\<close>, with \<open>Inl\<close> for the exception.  The source defines no exception
  class of its own and contains no \<^verbatim>\<open>raise\<close> statement: every exception a run
  can end with is one of Python's or of a library.
\<close>

text \<open>
  An \<open>IndexError\<close> carries the access that raised it: a column \<open>X_r[:, j]\<close> of an
  array or an item \<open>PCs[i]\<close> of a list, and the index that was out of range.
\<close>

datatype place = Column | Item

datatype error = ValueError | IndexError place nat

text \<open>Sequencing: the first exception ends the computation.\<close>

definition and_then :: "error + 'a \<Rightarrow> ('a \<Rightarrow> error + 'b) \<Rightarrow> error + 'b" where
  "and_then m f = (case m of Inl e \<Rightarrow> Inl e | Inr x \<Rightarrow> f x)"

text \<open>
  A Python float is one of the finite values, the two infinities or NaN.  Finite values
  are real numbers here.  \<open>to_double\<close> is the part of rounding to the nearest double
  that changes the kind of a value: a number of magnitude at least
  \<open>(2 - 2\<^sup>-\<^sup>5\<^sup>3) * 2\<^sup>1\<^sup>0\<^sup>2\<^sup>3\<close> becomes an infinity, and a number of magnitude at most
  \<open>2\<^sup>-\<^sup>1\<^sup>0\<^sup>7\<^sup>5\<close>, half of the smallest double, becomes 0.  Rounding inside the range
  of the doubles is not modelled.
\<close>

datatype pyfloat = Fin real | PosInf | NegInf | NaN

definition overflow_bound :: real where
  "overflow_bound = (2 - 1 / 2 ^ 53) * 2 ^ 1023"

definition underflow_bound :: real where
  "underflow_bound = 1 / 2 ^ 1075"

definition to_double :: "real \<Rightarrow> pyfloat" where
  "to_double v =
     (if overflow_bound \<le> v then PosInf
      else if v \<le> - overflow_bound then NegInf
      else if \<bar>v\<bar> \<le> underflow_bound then Fin 0
      else Fin v)"

subsection \<open>\<^verbatim>\<open>str.replace\<close> and \<^verbatim>\<open>str.split\<close>\<close>

text \<open>
  \<^verbatim>\<open>s.replace(old, new)\<close> replaces every occurrence of \<open>old\<close>, scanning from the left
  without overlaps.  With an empty \<open>old\<close> Python inserts \<open>new\<close> before every character
  and at the end.
\<close>

fun py_replace :: "string \<Rightarrow> string \<Rightarrow> string \<Rightarrow> string" where
  "py_replace old new [] = (if old = [] then new else [])"
| "py_replace old new (c # cs) =
     (if old = [] then new @ c # py_replace old new cs
      else if take (length old) (c # cs) = old
        then new @ py_replace old new (drop (length old - 1) cs)
      else c # py_replace old new cs)"

text \<open>\<^verbatim>\<open>pat in s\<close>: the pattern occurs somewhere in the string.\<close>

fun contains :: "string \<Rightarrow> string \<Rightarrow> bool" where
  "contains pat [] = (pat = [])"
| "contains pat (c # cs) = (take (length pat) (c # cs) = pat \<or> contains pat cs)"

text \<open>\<^verbatim>\<open>s.split(sep)\<close> for a separator of one character: empty tokens are kept.\<close>

fun py_split :: "char \<Rightarrow> string \<Rightarrow> string list" where
  "py_split sep [] = [[]]"
| "py_split sep (c # cs) =
     (if c = sep then [] # py_split sep cs
      else (case py_split sep cs of
              [] \<Rightarrow> [[c]]
            | t # ts \<Rightarrow> (c # t) # ts))"

subsection \<open>\<^verbatim>\<open>float(str)\<close>\<close>

text \<open>
  Python 3 reads a string as a float after stripping the white space characters
  \<open>\t\<close>, \<open>\n\<close>, \<open>\v\<close>, \<open>\f\<close>, \<open>\r\<close> and the blank from both ends, ignoring case:
  \<^verbatim>\<open>[sign] ("inf" | "infinity" | "nan" | number [exponent])\<close> with
  \<^verbatim>\<open>number = digitpart ["."] | [digitpart] "." digitpart\<close>,
  \<^verbatim>\<open>exponent = ("e" | "E") [sign] digitpart\<close> and
  \<^verbatim>\<open>digitpart = digit (["_"] digit)*\<close>; anything else raises \<open>ValueError\<close>.
  Strings are ASCII here, and the value of a literal is its decimal value, taken to an
  infinity or to 0 by \<open>to_double\<close> when it is out of the range of the doubles.
\<close>

definition is_space :: "char \<Rightarrow> bool" where
  "is_space c = ((of_char c :: nat) \<in> {9, 10, 11, 12, 13, 32})"

definition py_strip :: "string \<Rightarrow> string" where
  "py_strip s = rev (dropWhile is_space (rev (dropWhile is_space s)))"

definition is_digit :: "char \<Rightarrow> bool" where
  "is_digit c = (48 \<le> (of_char c :: nat) \<and> (of_char c :: nat) \<le> 57)"

definition digit_val :: "char \<Rightarrow> nat" where
  "digit_val c = of_char c - 48"

definition lower :: "char \<Rightarrow> char" where
  "lower c = (if 65 \<le> (of_char c :: nat) \<and> (of_char c :: nat) \<le> 90
              then char_of ((of_char c :: nat) + 32) else c)"

definition dec :: "nat list \<Rightarrow> nat" where
  "dec ds = foldl (\<lambda>a d. 10 * a + d) 0 ds"

text \<open>The digits that follow the first digit of a digitpart, and the rest of the string.\<close>

fun scan_digits :: "string \<Rightarrow> nat list \<times> string" where
  "scan_digits [] = ([], [])"
| "scan_digits (c # cs) =
     (if is_digit c then (case scan_digits cs of (ds, r) \<Rightarrow> (digit_val c # ds, r))
      else if c = CHR ''_'' then
        (case cs of
           [] \<Rightarrow> ([], c # cs)
         | d # cs' \<Rightarrow>
             if is_digit d then (case scan_digits cs' of (ds, r) \<Rightarrow> (digit_val d # ds, r))
             else ([], c # cs))
      else ([], c # cs))"

definition digitpart :: "string \<Rightarrow> (nat list \<times> string) option" where
  "digitpart s =
     (case s of
        [] \<Rightarrow> None
      | c # cs \<Rightarrow>
          if is_digit c then (case scan_digits cs of (ds, r) \<Rightarrow> Some (digit_val c # ds, r))
          else None)"

definition py_sign :: "string \<Rightarrow> bool \<times> string" where
  "py_sign s =
     (case s of
        [] \<Rightarrow> (False, [])
      | c # cs \<Rightarrow>
          if c = CHR ''-'' then (True, cs)
          else if c = CHR ''+'' then (False, cs)
          else (False, c # cs))"

definition mantissa :: "nat list \<Rightarrow> nat list \<Rightarrow> real" where
  "mantissa ip fp = real (dec ip) + real (dec fp) / 10 ^ length fp"

definition float_number :: "string \<Rightarrow> (real \<times> string) option" where
  "float_number s =
     (case digitpart s of
        Some (ip, r) \<Rightarrow>
          (case r of
             [] \<Rightarrow> Some (mantissa ip [], r)
           | c # r' \<Rightarrow>
               if c = CHR ''.'' then
                 (case digitpart r' of
                    Some (fp, r'') \<Rightarrow> Some (mantissa ip fp, r'')
                  | None \<Rightarrow> Some (mantissa ip [], r'))
               else Some (mantissa ip [], r))
      | None \<Rightarrow>
          (case s of
             [] \<Rightarrow> None
           | c # r' \<Rightarrow>
               if c = CHR ''.'' then
                 (case digitpart r' of
                    Some (fp, r'') \<Rightarrow> Some (mantissa [] fp, r'')
                  | None \<Rightarrow> None)
               else None))"

text \<open>The exponent has to take the whole rest of the string; no exponent is exponent 0.\<close>

definition float_exponent :: "string \<Rightarrow> int option" where
  "float_exponent r =
     (case r of
        [] \<Rightarrow> Some 0
      | c # r' \<Rightarrow>
          if c = CHR ''e'' \<or> c = CHR ''E'' then
            (case py_sign r' of
               (neg, r'') \<Rightarrow>
                 (case digitpart r'' of
                    Some (ds, []) \<Rightarrow> Some (if neg then - int (dec ds) else int (dec ds))
                  | _ \<Rightarrow> None))
          else None)"

definition py_float :: "string \<Rightarrow> error + pyfloat" where
  "py_float s =
     (case py_sign (py_strip s) of
        (neg, body) \<Rightarrow>
          if map lower body = ''inf'' \<or> map lower body = ''infinity''
            then Inr (if neg then NegInf else PosInf)
          else if map lower body = ''nan'' then Inr NaN
          else
            (case float_number body of
               None \<Rightarrow> Inl ValueError
             | Some (m, r) \<Rightarrow>
                 (case float_exponent r of
                    None \<Rightarrow> Inl ValueError
                  | Some e \<Rightarrow> Inr (to_double ((if neg then - m else m) * 10 powi e)))))"

text \<open>Float division by a finite non-zero constant.\<close>

fun fdiv :: "pyfloat \<Rightarrow> real \<Rightarrow> pyfloat" where
  "fdiv (Fin x) d = to_double (x / d)"
| "fdiv PosInf d = (if 0 < d then PosInf else NegInf)"
| "fdiv NegInf d = (if 0 < d then NegInf else PosInf)"
| "fdiv NaN d = NaN"

section \<open>\<open>makeColor\<close>\<close>

text \<open>
  \<^verbatim>\<open>return [float(col)/255. for col in colorRGB.split(":")]\<close>:
  the comprehension stops at the first token that \<^verbatim>\<open>float\<close> rejects.
\<close>

fun floats_div255 :: "string list \<Rightarrow> error + pyfloat list" where
  "floats_div255 [] = Inr []"
| "floats_div255 (col # cols) =
     (case py_float col of
        Inl e \<Rightarrow> Inl e
      | Inr v \<Rightarrow>
          (case floats_div255 cols of
             Inl e \<Rightarrow> Inl e
           | Inr vs \<Rightarrow> Inr (fdiv v 255 # vs)))"

definition makeColor :: "string \<Rightarrow> error + pyfloat list" where
  "makeColor colorRGB = floats_div255 (py_split CHR '':'' colorRGB)"



section \<open>The data table and its transformation\<close>

text \<open>
  \<open>dfData\<close> is the table of feature values without the label and colour columns: a
  list of rows of finite floats, every row of the same length.  Its shape is
  \<open>(length X, ncols X)\<close>; the empty list is the array of shape \<open>(0, 0)\<close>.
\<close>

definition ncols :: "'a list list \<Rightarrow> nat" where
  "ncols X = (case X of [] \<Rightarrow> 0 | r # _ \<Rightarrow> length r)"

definition rect :: "nat \<Rightarrow> nat \<Rightarrow> 'a list list \<Rightarrow> bool" where
  "rect n p X = (length X = n \<and> list_all (\<lambda>r. length r = p) X)"

definition col :: "'a list list \<Rightarrow> nat \<Rightarrow> 'a list" where
  "col X j = map (\<lambda>r. r ! j) X"

definition mean :: "real list \<Rightarrow> real" where
  "mean xs = sum_list xs / real (length xs)"

text \<open>The population variance (\<open>ddof = 0\<close>) and standard deviation of a column.\<close>

definition pvar :: "real list \<Rightarrow> real" where
  "pvar xs = mean (map (\<lambda>x. (x - mean xs)\<^sup>2) xs)"

definition pstd :: "real list \<Rightarrow> real" where
  "pstd xs = sqrt (pvar xs)"

text \<open>
  \<^verbatim>\<open>StandardScaler().fit_transform(dfData)\<close> of scikit-learn: the input validation
  raises \<open>ValueError\<close> for a table with no sample or no feature, and the result is
  \<open>(x - mean) / scale\<close>.  The scale of a column is its population standard deviation,
  except that a column that is constant or nearly so is divided by 1: scikit-learn takes
  a column of \<open>n\<close> values for constant when its variance is at most
  \<open>n * eps * var + (n * mean * eps)\<^sup>2\<close>, with \<open>eps = 2\<^sup>-\<^sup>5\<^sup>2\<close>.
\<close>

definition eps :: real where
  "eps = 1 / 2 ^ 52"

definition is_constant_feature :: "real list \<Rightarrow> bool" where
  "is_constant_feature xs =
     (pvar xs \<le> real (length xs) * eps * pvar xs + (real (length xs) * mean xs * eps)\<^sup>2)"

definition scale :: "real list \<Rightarrow> real" where
  "scale xs = (if is_constant_feature xs then 1 else pstd xs)"

definition StandardScaler_fit_transform :: "real list list \<Rightarrow> error + real list list" where
  "StandardScaler_fit_transform X =
     (if X = [] \<or> ncols X = 0 then Inl ValueError
      else Inr (map (\<lambda>r. map (\<lambda>j. (r ! j - mean (col X j)) / scale (col X j)) [0..<ncols X]) X))"

text \<open>
  \<^verbatim>\<open>np.log\<close> on a finite float: the logarithm of a positive number, \<open>-inf\<close> at 0 and
  NaN below 0 (numpy prints a warning and goes on; nothing is raised).
\<close>

definition np_log :: "real \<Rightarrow> pyfloat" where
  "np_log x = (if 0 < x then Fin (ln x) else if x = 0 then NegInf else NaN)"

text \<open>
  Lines 34 to 40 of \<open>main\<close>: the transformation of the table and of the path that the
  output file names are built from.  The result is what \<open>main\<close> hands to \<open>getPCA\<close>.
  \<^verbatim>\<open>
    if fl_std:
        csvPath = csvPath.replace(".csv", "-std.csv")
        dfData = StandardScaler().fit_transform(dfData)
        dfData = pd.DataFrame(dfData)
    elif fl_log:
        csvPath = csvPath.replace(".csv", "-log.csv")
        dfData = dfData.apply(np.log)
  \<close>
\<close>

definition transform :: "bool \<Rightarrow> bool \<Rightarrow> string \<Rightarrow> real list list
    \<Rightarrow> error + (string \<times> pyfloat list list)" where
  "transform fl_std fl_log csvPath dfData =
     (if fl_std then
        (case StandardScaler_fit_transform dfData of
           Inl e \<Rightarrow> Inl e
         | Inr Y \<Rightarrow> Inr (py_replace ''.csv'' ''-std.csv'' csvPath, map (map Fin) Y))
      else if fl_log then
        Inr (py_replace ''.csv'' ''-log.csv'' csvPath, map (map np_log) dfData)
      else Inr (csvPath, map (map Fin) dfData))"

section \<open>\<open>getPCA\<close>\<close>

text \<open>
  The decomposition is scikit-learn's \<^verbatim>\<open>PCA\<close>, which is not part of the script:
  \<open>fit_transform\<close> is a parameter.  A call gets the table as \<open>main\<close> left it, and
  either raises or fits the object, whose attributes \<^verbatim>\<open>components_\<close> (one row per
  component) and \<^verbatim>\<open>explained_variance_ratio_\<close> the script reads, and returns the
  scores.  The ratios are only passed on, so they keep the float type.
\<close>

record pca =
  components :: "real list list"
  explained_variance_ratio :: "pyfloat list"

type_synonym fit_transform = "pyfloat list list \<Rightarrow> error + (pca \<times> real list list)"

definition np_transpose :: "real list list \<Rightarrow> real list list" where
  "np_transpose M = map (col M) [0..<ncols M]"

text \<open>\<^verbatim>\<open>np.linalg.norm(M, axis=0)\<close>: the Euclidean norm of every column of \<open>M\<close>.\<close>

definition norm_axis0 :: "real list list \<Rightarrow> real list" where
  "norm_axis0 M = map (\<lambda>j. sqrt (sum_list (map (\<lambda>x. x\<^sup>2) (col M j)))) [0..<ncols M]"

text \<open>
  Float product and sum: NaN is absorbing, an infinity times 0 and the sum of the two
  infinities are NaN, and a finite result goes through \<open>to_double\<close>.
\<close>

fun fmul :: "pyfloat \<Rightarrow> real \<Rightarrow> pyfloat" where
  "fmul (Fin a) c = to_double (a * c)"
| "fmul PosInf c = (if 0 < c then PosInf else if c < 0 then NegInf else NaN)"
| "fmul NegInf c = (if 0 < c then NegInf else if c < 0 then PosInf else NaN)"
| "fmul NaN c = NaN"

fun fadd :: "pyfloat \<Rightarrow> pyfloat \<Rightarrow> pyfloat" where
  "fadd (Fin a) (Fin b) = to_double (a + b)"
| "fadd NaN y = NaN"
| "fadd x NaN = NaN"
| "fadd PosInf NegInf = NaN"
| "fadd NegInf PosInf = NaN"
| "fadd PosInf y = PosInf"
| "fadd NegInf y = NegInf"
| "fadd x PosInf = PosInf"
| "fadd x NegInf = NegInf"

definition fsum :: "pyfloat list \<Rightarrow> pyfloat" where
  "fsum xs = foldl fadd (Fin 0) xs"

text \<open>
  \<^verbatim>\<open>A.dot(B)\<close>: the matrix product of the table and a finite array; numpy raises
  \<open>ValueError\<close> when the shapes do not fit.
\<close>

definition np_dot :: "pyfloat list list \<Rightarrow> real list list \<Rightarrow> error + pyfloat list list" where
  "np_dot A B =
     (if ncols A = length B
      then Inr (map (\<lambda>r. map (\<lambda>j. fsum (map2 fmul r (col B j))) [0..<ncols B]) A)
      else Inl ValueError)"

text \<open>
  \<^verbatim>\<open>np.allclose(a, b)\<close> with its default tolerances: every entry has
  \<open>\<bar>a - b\<bar> \<le> atol + rtol * \<bar>b\<bar>\<close>, \<open>rtol = 1e-5\<close>, \<open>atol = 1e-8\<close>; an infinity or a
  NaN is not close to a finite number.  The two arrays have the same shape wherever
  the script calls it; broadcasting is not modelled.
\<close>

fun isclose :: "pyfloat \<Rightarrow> real \<Rightarrow> bool" where
  "isclose (Fin a) b = (\<bar>a - b\<bar> \<le> 1 / 10 ^ 8 + 1 / 10 ^ 5 * \<bar>b\<bar>)"
| "isclose PosInf b = False"
| "isclose NegInf b = False"
| "isclose NaN b = False"

definition np_allclose :: "pyfloat list list \<Rightarrow> real list list \<Rightarrow> bool" where
  "np_allclose A B = list_all2 (list_all2 isclose) A B"

record pca_out =
  X_r :: "real list list"
  PCs :: "pyfloat list"
  loadings :: "real list list"
  coeffVectorNorms :: "real list"
  dotProduct :: bool

text \<open>
  \<open>getPCA\<close> fits twice: once for \<open>X_r\<close>, and again inside the second argument of
  \<^verbatim>\<open>np.allclose\<close>, after the first argument has been computed from the first fit.
  The attributes it returns are those of the object after the second fit.  The two
  printed diagnostics are the fields \<open>coeffVectorNorms\<close> and \<open>dotProduct\<close>.
  \<^verbatim>\<open>
    pca = PCA()
    X_r = pca.fit_transform(dfData)
    coeffVectorNorms = np.linalg.norm(pca.components_.T, axis=0)
    dotProduct = np.allclose(dfData.values.dot(pca.components_.T),
                             pca.fit_transform(dfData.values))
    return X_r, pca.explained_variance_ratio_, pca.components_
  \<close>
\<close>

definition getPCA :: "fit_transform \<Rightarrow> pyfloat list list \<Rightarrow> error + pca_out" where
  "getPCA fit_transform dfData =
     (case fit_transform dfData of
        Inl e \<Rightarrow> Inl e
      | Inr (pca1, scores1) \<Rightarrow>
          (case np_dot dfData (np_transpose (components pca1)) of
             Inl e \<Rightarrow> Inl e
           | Inr raw \<Rightarrow>
               (case fit_transform dfData of
                  Inl e \<Rightarrow> Inl e
                | Inr (pca2, scores2) \<Rightarrow>
                    Inr \<lparr>X_r = scores1,
                         PCs = explained_variance_ratio pca2,
                         loadings = components pca2,
                         coeffVectorNorms = norm_axis0 (np_transpose (components pca1)),
                         dotProduct = np_allclose raw scores2\<rparr>)))"

text \<open>
  Lines 34 to 43 of \<open>main\<close>: the transformation, then \<open>getPCA\<close> on the transformed
  table.  The result is the transformed path with what \<open>getPCA\<close> returned.
\<close>

definition main_getPCA :: "fit_transform \<Rightarrow> bool \<Rightarrow> bool \<Rightarrow> string \<Rightarrow> real list list
    \<Rightarrow> error + (string \<times> pca_out)" where
  "main_getPCA fit_transform fl_std fl_log csvPath dfData =
     and_then (transform fl_std fl_log csvPath dfData) (\<lambda>(p, T).
     and_then (getPCA fit_transform T) (\<lambda>out. Inr (p, out)))"



section \<open>Output files of \<open>displaySaveLog\<close> and \<open>plotPCA\<close>\<close>

text \<open>
  What \<open>displaySaveLog\<close> prints and the contents of its files are not modelled: the
  function is represented by the paths it writes to, in the order of the writes, which
  is the empty list without the save flag.
\<close>

definition displaySaveLog :: "string \<Rightarrow> bool \<Rightarrow> string list" where
  "displaySaveLog csvPath fl_save =
     (if fl_save
      then [py_replace ''.csv'' ''_loadings.csv'' csvPath, py_replace ''.csv'' ''_info.txt'' csvPath]
      else [])"

text \<open>
  \<open>X_r[:, j]\<close> raises \<open>IndexError\<close> when the array has no column \<open>j\<close>, and so does
  \<open>PCs[i]\<close> on a list that is too short.
\<close>

definition column :: "real list list \<Rightarrow> nat \<Rightarrow> error + real list" where
  "column X j = (if j < ncols X then Inr (col X j) else Inl (IndexError Column j))"

definition item :: "'a list \<Rightarrow> nat \<Rightarrow> error + 'a" where
  "item xs i = (if i < length xs then Inr (xs ! i) else Inl (IndexError Item i))"

text \<open>
  The two calls into matplotlib that get values made by the script are parameters: the
  scatter call of one sample, which raises when it does not accept the colour, and
  \<^verbatim>\<open>savefig\<close>, which raises when it does not accept the file name.
\<close>

record scatter_call =
  label :: string
  color :: "pyfloat list"
  coords :: "real list"

type_synonym scatter = "scatter_call \<Rightarrow> error + unit"

type_synonym savefig = "string \<Rightarrow> error + unit"

record figure =
  calls :: "scatter_call list"
  axis_pcs :: "pyfloat list"
  pngPath :: string
  saved :: "string list"

text \<open>The loop over the zipped samples: \<open>makeColor\<close>, then one scatter call.\<close>

fun scatter_all :: "scatter \<Rightarrow> (string \<times> string \<times> real list) list
    \<Rightarrow> error + scatter_call list" where
  "scatter_all sc [] = Inr []"
| "scatter_all sc ((lab, c, xyz) # rest) =
     (case makeColor c of
        Inl e \<Rightarrow> Inl e
      | Inr newCol \<Rightarrow>
          (case sc \<lparr>label = lab, color = newCol, coords = xyz\<rparr> of
             Inl e \<Rightarrow> Inl e
           | Inr u \<Rightarrow>
               (case scatter_all sc rest of
                  Inl e \<Rightarrow> Inl e
                | Inr cs \<Rightarrow> Inr (\<lparr>label = lab, color = newCol, coords = xyz\<rparr> # cs))))"

text \<open>
  The end of \<open>plotPCA\<close>: with the save flag the figure is saved under \<open>pngPath\<close> and
  then the legend under \<^verbatim>\<open>pngPath.replace(".png", "_legend.png")\<close>; the result is the
  list of the files written.  Without the flag the figures are shown.
\<close>

definition save_figures :: "savefig \<Rightarrow> string \<Rightarrow> bool \<Rightarrow> error + string list" where
  "save_figures sf png fl_save =
     (if fl_save then
        and_then (sf png) (\<lambda>u.
        and_then (sf (py_replace ''.png'' ''_legend.png'' png)) (\<lambda>v.
          Inr [png, py_replace ''.png'' ''_legend.png'' png]))
      else Inr [])"

text \<open>
  \<open>plotPCA\<close>: the arguments of \<^verbatim>\<open>zip\<close> are evaluated first, from left to right, then
  the loop runs, then the axis labels read \<open>PCs\<close>, then the figures are saved or shown.
  The axis labels are represented by the values they format.
\<close>

definition plotPCA :: "scatter \<Rightarrow> savefig \<Rightarrow> bool \<Rightarrow> real list list \<Rightarrow> pyfloat list
    \<Rightarrow> string list \<Rightarrow> string list \<Rightarrow> string \<Rightarrow> bool \<Rightarrow> error + figure" where
  "plotPCA sc sf proj3D Xr pcs ligs colors csvPath fl_save =
     (if proj3D then
        and_then (column Xr 0) (\<lambda>xs.
        and_then (column Xr 1) (\<lambda>ys.
        and_then (column Xr 2) (\<lambda>zs.
        and_then (scatter_all sc (map (\<lambda>(lab, c, x, y, z). (lab, c, [x, y, z]))
                    (zip ligs (zip colors (zip xs (zip ys zs)))))) (\<lambda>cs.
        and_then (item pcs 0) (\<lambda>p0.
        and_then (item pcs 1) (\<lambda>p1.
        and_then (item pcs 2) (\<lambda>p2.
        and_then (save_figures sf (py_replace ''.csv'' ''_3D.png'' csvPath) fl_save) (\<lambda>files.
          Inr \<lparr>calls = cs, axis_pcs = [p0, p1, p2],
               pngPath = py_replace ''.csv'' ''_3D.png'' csvPath,
               saved = files\<rparr>))))))))
      else
        and_then (column Xr 0) (\<lambda>xs.
        and_then (column Xr 1) (\<lambda>ys.
        and_then (scatter_all sc (map (\<lambda>(lab, c, x, y). (lab, c, [x, y]))
                    (zip ligs (zip colors (zip xs ys))))) (\<lambda>cs.
        and_then (item pcs 0) (\<lambda>p0.
        and_then (item pcs 1) (\<lambda>p1.
        and_then (save_figures sf (py_replace ''.csv'' ''_2D.png'' csvPath) fl_save) (\<lambda>files.
          Inr \<lparr>calls = cs, axis_pcs = [p0, p1],
               pngPath = py_replace ''.csv'' ''_2D.png'' csvPath,
               saved = files\<rparr>)))))))"

text \<open>
  The part of a derived file name that stands for the transformation, in the words of the
  specification: \<open>-std\<close> after standardisation, \<open>-log\<close> after the log transform,
  nothing otherwise.
\<close>

definition name_suffix :: "bool \<Rightarrow> bool \<Rightarrow> string" where
  "name_suffix fl_std fl_log = (if fl_std then ''-std'' else if fl_log then ''-log'' else [])"

section \<open>File names\<close>

text \<open>
  A replacement leaves a prefix alone when the pattern does not occur in it and cannot
  begin in it and end in what follows.
\<close>

lemma py_replace_skip:
  assumes "old \<noteq> []" "\<not> contains old s" "t \<noteq> []" "hd t \<notin> set (tl old)"
  shows "py_replace old new (s @ t) = s @ py_replace old new t"
  using assms(2)
proof (induction s)
  case Nil
  then show ?case by simp
next
  case (Cons c s)
  have nc: "take (length old) (c # s) \<noteq> old" and ns: "\<not> contains old s"
    using Cons.prems by auto
  have "take (length old) (c # s @ t) \<noteq> old"
  proof
    assume eq: "take (length old) (c # s @ t) = old"
    show False
    proof (cases "length old \<le> length (c # s)")
      case True
      then have "take (length old) ((c # s) @ t) = take (length old) (c # s)"
        by (simp only: take_append) simp
      then have "take (length old) (c # s @ t) = take (length old) (c # s)" by simp
      with eq nc show False by simp
    next
      case False
      then have k: "Suc (length s) < length old" by simp
      have "old ! Suc (length s) = (c # s @ t) ! Suc (length s)"
        using k by (subst eq [symmetric]) simp
      also have "\<dots> = hd t" using assms(3) by (simp add: nth_append hd_conv_nth)
      finally have "hd t = tl old ! length s" using k by (simp add: nth_tl)
      moreover have "length s < length (tl old)" using k by simp
      ultimately have "hd t \<in> set (tl old)" by (metis nth_mem)
      with assms(4) show False by simp
    qed
  qed
  with assms(1) ns Cons.IH show ?case by simp
qed

lemma transform_path:
  "transform fl_std fl_log csvPath dfData = Inr (p, Y) \<Longrightarrow>
   p = (if fl_std then py_replace ''.csv'' ''-std.csv'' csvPath
        else if fl_log then py_replace ''.csv'' ''-log.csv'' csvPath else csvPath)"
  by (auto simp: transform_def split: if_splits sum.splits)

lemma save_figures_saved:
  "save_figures sf png True = Inr files \<Longrightarrow>
   files = [png, py_replace ''.png'' ''_legend.png'' png]"
  by (auto simp: save_figures_def and_then_def split: sum.splits)

lemma plotPCA_saved:
  "plotPCA sc sf proj3D Xr pcs ligs colors csvPath True = Inr fig \<Longrightarrow>
   saved fig = [py_replace ''.csv'' (if proj3D then ''_3D.png'' else ''_2D.png'') csvPath,
                py_replace ''.png'' ''_legend.png''
                  (py_replace ''.csv'' (if proj3D then ''_3D.png'' else ''_2D.png'') csvPath)]"
  by (auto simp: plotPCA_def and_then_def dest!: save_figures_saved split: if_splits sum.splits)

text \<open>
  C8.  With both the standardisation flag and the log flag set, \<open>main\<close> does exactly
  what it does with the standardisation flag alone: the path gets \<open>-std\<close>, the table is
  standardised, and the \<^verbatim>\<open>elif\<close> branch with the logarithm is not reached.
\<close>

theorem both_flags_standardise_only:
  "transform True True csvPath dfData = transform True False csvPath dfData \<and>
   transform True True csvPath dfData =
     and_then (StandardScaler_fit_transform dfData)
       (\<lambda>Y. Inr (py_replace ''.csv'' ''-std.csv'' csvPath, map (map Fin) Y))"
  by (simp add: transform_def and_then_def)

text \<open>
  Numbers of moderate size are doubles of the same value; with that, a run on one red
  sample with three score columns, in 2D and in 3D, matplotlib accepting every call.
\<close>

lemma to_double_mid:
  "\<bar>v\<bar> \<le> 2 ^ 64 \<Longrightarrow> v = 0 \<or> 1 / 2 ^ 64 \<le> \<bar>v\<bar> \<Longrightarrow> to_double v = Fin v"
proof -
  assume a: "\<bar>v\<bar> \<le> 2 ^ 64" and b: "v = 0 \<or> 1 / 2 ^ 64 \<le> \<bar>v\<bar>"
  have "(2::real) ^ 64 < 2 ^ 1023" by (rule power_strict_increasing) simp_all
  moreover have "(1::real) * 2 ^ 1023 \<le> (2 - 1 / 2 ^ 53) * 2 ^ 1023"
    by (rule mult_right_mono) simp_all
  ultimately have o: "(2::real) ^ 64 < overflow_bound" by (simp add: overflow_bound_def)
  have "(2::real) ^ 64 < 2 ^ 1075" by (rule power_strict_increasing) simp_all
  then have u: "underflow_bound < 1 / (2::real) ^ 64"
    by (simp add: underflow_bound_def frac_less2)
  have up: "0 < underflow_bound" by (simp add: underflow_bound_def)
  show ?thesis
  proof (cases "v = 0")
    case True
    then show ?thesis using o up by (simp add: to_double_def)
  next
    case False
    then have "1 / 2 ^ 64 \<le> \<bar>v\<bar>" using b by simp
    then show ?thesis using a o u unfolding to_double_def by (auto simp: abs_if split: if_splits)
  qed
qed

lemmas float_defs = py_float_def py_sign_def py_strip_def is_space_def float_number_def
  digitpart_def is_digit_def digit_val_def float_exponent_def mantissa_def dec_def lower_def

lemma makeColor_red: "makeColor ''255:0:0'' = Inr [Fin 1, Fin 0, Fin 0]"
  by (simp add: makeColor_def float_defs to_double_mid)

lemma plot2D_example:
  "plotPCA (\<lambda>c. Inr ()) (\<lambda>f. Inr ()) False [[1, 2, 3]] [Fin 50, Fin 30, Fin 20] [''a'']
       [''255:0:0''] ''data-log.csv'' True =
     Inr \<lparr>calls = [\<lparr>label = ''a'', color = [Fin 1, Fin 0, Fin 0], coords = [1, 2]\<rparr>],
          axis_pcs = [Fin 50, Fin 30], pngPath = ''data-log_2D.png'',
          saved = [''data-log_2D.png'', ''data-log_2D_legend.png'']\<rparr>"
  by (simp add: plotPCA_def and_then_def column_def item_def ncols_def col_def
      save_figures_def makeColor_red)

lemma plot3D_example:
  "plotPCA (\<lambda>c. Inr ()) (\<lambda>f. Inr ()) True [[1, 2, 3]] [Fin 50, Fin 30, Fin 20] [''a'']
       [''255:0:0''] ''data-log.csv'' True =
     Inr \<lparr>calls = [\<lparr>label = ''a'', color = [Fin 1, Fin 0, Fin 0], coords = [1, 2, 3]\<rparr>],
          axis_pcs = [Fin 50, Fin 30, Fin 20], pngPath = ''data-log_3D.png'',
          saved = [''data-log_3D.png'', ''data-log_3D_legend.png'']\<rparr>"
  by (simp add: plotPCA_def and_then_def column_def item_def ncols_def col_def
      save_figures_def makeColor_red)

text \<open>
  C9, as the claim states it, fails: the names are made by replacing the text \<open>.csv\<close>
  in the path, and \<open>.png\<close> in the name of the plot.  For the input path \<open>data.txt\<close>
  with the log transform applied nothing is replaced: no \<open>-log\<close> is inserted and both
  files of \<open>displaySaveLog\<close> are written to the input path itself.  For \<open>a.csv.csv\<close>
  the suffix and the derived part are inserted twice, and for \<open>a.png.csv\<close> the legend
  is not the name of the plot with \<open>_legend\<close> before \<open>.png\<close>.
\<close>

theorem derived_names_counterexample:
  "transform False True ''data.txt'' [[1]] = Inr (''data.txt'', [[Fin 0]]) \<and>
   displaySaveLog ''data.txt'' True = [''data.txt'', ''data.txt''] \<and>
   transform False True ''a.csv.csv'' [[1]] = Inr (''a-log.csv-log.csv'', [[Fin 0]]) \<and>
   displaySaveLog ''a-log.csv-log.csv'' True =
     [''a-log_loadings.csv-log_loadings.csv'', ''a-log_info.txt-log_info.txt''] \<and>
   transform False True ''a.png.csv'' [[1]] = Inr (''a.png-log.csv'', [[Fin 0]]) \<and>
   plotPCA (\<lambda>c. Inr ()) (\<lambda>f. Inr ()) False [[1, 2, 3]] [Fin 50, Fin 30, Fin 20] [''a'']
       [''255:0:0''] ''a.png-log.csv'' True =
     Inr \<lparr>calls = [\<lparr>label = ''a'', color = [Fin 1, Fin 0, Fin 0], coords = [1, 2]\<rparr>],
          axis_pcs = [Fin 50, Fin 30], pngPath = ''a.png-log_2D.png'',
          saved = [''a.png-log_2D.png'', ''a_legend.png-log_2D_legend.png'']\<rparr>"
  by (simp add: transform_def displaySaveLog_def np_log_def plotPCA_def and_then_def
      column_def item_def ncols_def col_def save_figures_def makeColor_red)

text \<open>
  C9, amended.  When the input path is \<open>base.csv\<close> and neither \<open>.csv\<close> nor \<open>.png\<close>
  occurs in \<open>base\<close>, every file name of a saving run is \<open>base\<close>, then the suffix of the
  transformation that was applied, then the derived part: \<open>_loadings.csv\<close>,
  \<open>_info.txt\<close>, \<open>_2D.png\<close> or \<open>_3D.png\<close>, and the legend \<open>_2D_legend.png\<close> or
  \<open>_3D_legend.png\<close>.
\<close>

theorem derived_file_names:
  assumes "\<not> contains ''.csv'' base" and "\<not> contains ''.png'' base"
    and "transform fl_std fl_log (base @ ''.csv'') dfData = Inr (p, Y)"
  shows "p = base @ name_suffix fl_std fl_log @ ''.csv'' \<and>
         displaySaveLog p True =
           [base @ name_suffix fl_std fl_log @ ''_loadings.csv'',
            base @ name_suffix fl_std fl_log @ ''_info.txt''] \<and>
         (plotPCA sc sf False Xr pcs ligs colors p True = Inr fig2 \<longrightarrow>
            saved fig2 = [base @ name_suffix fl_std fl_log @ ''_2D.png'',
                          base @ name_suffix fl_std fl_log @ ''_2D_legend.png'']) \<and>
         (plotPCA sc sf True Xr pcs ligs colors p True = Inr fig3 \<longrightarrow>
            saved fig3 = [base @ name_suffix fl_std fl_log @ ''_3D.png'',
                          base @ name_suffix fl_std fl_log @ ''_3D_legend.png''])"
proof -
  have p: "p = base @ name_suffix fl_std fl_log @ ''.csv''"
    using transform_path [OF assms(3)] assms(1) by (simp add: name_suffix_def py_replace_skip)
  have d: "displaySaveLog p True =
           [base @ name_suffix fl_std fl_log @ ''_loadings.csv'',
            base @ name_suffix fl_std fl_log @ ''_info.txt'']"
    using assms(1) by (simp add: p displaySaveLog_def name_suffix_def py_replace_skip)
  have s2: "[py_replace ''.csv'' ''_2D.png'' p,
             py_replace ''.png'' ''_legend.png'' (py_replace ''.csv'' ''_2D.png'' p)] =
              [base @ name_suffix fl_std fl_log @ ''_2D.png'',
               base @ name_suffix fl_std fl_log @ ''_2D_legend.png'']"
    using assms(1,2) by (simp add: p name_suffix_def py_replace_skip)
  have s3: "[py_replace ''.csv'' ''_3D.png'' p,
             py_replace ''.png'' ''_legend.png'' (py_replace ''.csv'' ''_3D.png'' p)] =
              [base @ name_suffix fl_std fl_log @ ''_3D.png'',
               base @ name_suffix fl_std fl_log @ ''_3D_legend.png'']"
    using assms(1,2) by (simp add: p name_suffix_def py_replace_skip)
  have f2: "saved fig2 = [base @ name_suffix fl_std fl_log @ ''_2D.png'',
                          base @ name_suffix fl_std fl_log @ ''_2D_legend.png'']"
    if "plotPCA sc sf False Xr pcs ligs colors p True = Inr fig2"
    using plotPCA_saved [OF that] by (simp only: s2 if_False)
  have f3: "saved fig3 = [base @ name_suffix fl_std fl_log @ ''_3D.png'',
                          base @ name_suffix fl_std fl_log @ ''_3D_legend.png'']"
    if "plotPCA sc sf True Xr pcs ligs colors p True = Inr fig3"
    using plotPCA_saved [OF that] by (simp only: s3 if_True)
  show ?thesis using p d f2 f3 by blast
qed

theorem derived_file_names_witness:
  "\<not> contains ''.csv'' ''data'' \<and> \<not> contains ''.png'' ''data'' \<and>
   transform False True ''data.csv'' [[1]] = Inr (''data-log.csv'', [[Fin 0]]) \<and>
   displaySaveLog ''data-log.csv'' True = [''data-log_loadings.csv'', ''data-log_info.txt''] \<and>
   (\<exists>fig. plotPCA (\<lambda>c. Inr ()) (\<lambda>f. Inr ()) False [[1, 2, 3]] [Fin 50, Fin 30, Fin 20] [''a'']
            [''255:0:0''] ''data-log.csv'' True = Inr fig \<and>
          saved fig = [''data-log_2D.png'', ''data-log_2D_legend.png'']) \<and>
   (\<exists>fig. plotPCA (\<lambda>c. Inr ()) (\<lambda>f. Inr ()) True [[1, 2, 3]] [Fin 50, Fin 30, Fin 20] [''a'']
            [''255:0:0''] ''data-log.csv'' True = Inr fig \<and>
          saved fig = [''data-log_3D.png'', ''data-log_3D_legend.png''])"
proof -
  have h1: "\<not> contains ''.csv'' ''data''" by simp
  have h2: "\<not> contains ''.png'' ''data''" by simp
  have h3: "transform False True (''data'' @ ''.csv'') [[1]] = Inr (''data-log.csv'', [[Fin 0]])"
    by (simp add: transform_def np_log_def)
  have sfx: "name_suffix False True = ''-log''" by (simp add: name_suffix_def)
  note t = derived_file_names [OF h1 h2 h3, unfolded sfx, simplified]
  have d: "displaySaveLog ''data-log.csv'' True = [''data-log_loadings.csv'', ''data-log_info.txt'']"
    using t by blast
  have s2: "\<exists>fig. plotPCA (\<lambda>c. Inr ()) (\<lambda>f. Inr ()) False [[1, 2, 3]] [Fin 50, Fin 30, Fin 20]
            [''a''] [''255:0:0''] ''data-log.csv'' True = Inr fig \<and>
          saved fig = [''data-log_2D.png'', ''data-log_2D_legend.png'']"
    using t plot2D_example by blast
  have s3: "\<exists>fig. plotPCA (\<lambda>c. Inr ()) (\<lambda>f. Inr ()) True [[1, 2, 3]] [Fin 50, Fin 30, Fin 20]
            [''a''] [''255:0:0''] ''data-log.csv'' True = Inr fig \<and>
          saved fig = [''data-log_3D.png'', ''data-log_3D_legend.png'']"
    using t plot3D_example by blast
  from h3 have h3': "transform False True ''data.csv'' [[1]] = Inr (''data-log.csv'', [[Fin 0]])"
    by simp
  show ?thesis using h1 h2 h3' d s2 s3 by blast
qed

section \<open>The 3D projection\<close>

text \<open>
  C10, as the claim states it, fails: with fewer than 3 score columns the 3D plot does
  end with an out-of-bounds column access, but not always at the third column.  With one
  column the read that fails is \<open>X_r[:, 1]\<close>, the second column; the third is never
  read.
\<close>

theorem plotPCA_3D_counterexample:
  "plotPCA (\<lambda>c. Inr ()) (\<lambda>f. Inr ()) True [[1], [3]] [Fin 100] [''a'', ''b'']
     [''255:0:0'', ''0:0:255''] ''data.csv'' False = Inl (IndexError Column 1)"
  by (simp add: plotPCA_def and_then_def column_def ncols_def col_def)

text \<open>
  C10, amended.  When the score matrix has fewer than 3 columns, a 3D plot ends with the
  \<open>IndexError\<close> of a column access, at the first column that is missing, whose index is
  the number of columns: the third column when there are two, the second when there is
  one.  A 3D plot that returns has read three columns and labelled three axes, so the
  matrix has at least 3 columns.
\<close>

theorem plotPCA_3D_first_missing_column:
  "(ncols Xr < 3 \<longrightarrow>
      plotPCA sc sf True Xr pcs ligs colors csvPath fl_save = Inl (IndexError Column (ncols Xr))) \<and>
   (plotPCA sc sf True Xr pcs ligs colors csvPath fl_save = Inr fig \<longrightarrow>
      3 \<le> ncols Xr \<and> length (axis_pcs fig) = 3)"
proof -
  have "ncols Xr = 0 \<or> ncols Xr = 1 \<or> ncols Xr = 2 \<or> 3 \<le> ncols Xr" by arith
  then show ?thesis
    by (auto simp: plotPCA_def and_then_def column_def split: sum.splits)
qed

theorem plotPCA_3D_first_missing_column_witness:
  "ncols [[1, 2], [3, 4 :: real]] < 3 \<and>
   plotPCA (\<lambda>c. Inr ()) (\<lambda>f. Inr ()) True [[1, 2], [3, 4]] [Fin 60, Fin 40] [''a'', ''b'']
     [''255:0:0'', ''0:0:255''] ''data.csv'' False = Inl (IndexError Column 2) \<and>
   plotPCA (\<lambda>c. Inr ()) (\<lambda>f. Inr ()) True [[1, 2, 3]] [Fin 50, Fin 30, Fin 20] [''a'']
     [''255:0:0''] ''data-log.csv'' True =
     Inr \<lparr>calls = [\<lparr>label = ''a'', color = [Fin 1, Fin 0, Fin 0], coords = [1, 2, 3]\<rparr>],
          axis_pcs = [Fin 50, Fin 30, Fin 20], pngPath = ''data-log_3D.png'',
          saved = [''data-log_3D.png'', ''data-log_3D_legend.png'']\<rparr> \<and>
   3 \<le> ncols [[1, 2, 3 :: real]]"
proof -
  have n: "ncols [[1, 2], [3, 4 :: real]] = 2" by (simp add: ncols_def)
  have a: "plotPCA (\<lambda>c. Inr ()) (\<lambda>f. Inr ()) True [[1, 2], [3, 4]] [Fin 60, Fin 40]
     [''a'', ''b''] [''255:0:0'', ''0:0:255''] ''data.csv'' False = Inl (IndexError Column 2)"
    using n plotPCA_3D_first_missing_column [of "[[1, 2], [3, 4]]" "\<lambda>c. Inr ()" "\<lambda>f. Inr ()"
        "[Fin 60, Fin 40]" "[''a'', ''b'']" "[''255:0:0'', ''0:0:255'']" "''data.csv''" False]
    by simp
  have b: "3 \<le> ncols [[1, 2, 3 :: real]]"
    using plot3D_example plotPCA_3D_first_missing_column [of "[[1, 2, 3]]" "\<lambda>c. Inr ()"
        "\<lambda>f. Inr ()" "[Fin 50, Fin 30, Fin 20]" "[''a'']" "[''255:0:0'']" "''data-log.csv''" True]
    by blast
  show ?thesis using n a b plot3D_example by simp
qed

section \<open>Colours\<close>

















lemma floats_div255_length: "floats_div255 ts = Inr vs \<Longrightarrow> length vs = length ts"
  by (induction ts arbitrary: vs) (auto split: sum.splits)



lemma makeColor_not_a_number: "makeColor ''a:b:c'' = Inl ValueError"
  by (simp add: makeColor_def float_defs)



section \<open>The transformations\<close>

text \<open>
  C4, as the claim states it, fails: the log step never raises.  For a table with the
  entries 0 and -1 it returns \<open>-inf\<close> and NaN.
\<close>

theorem log_transform_counterexample:
  "transform False True ''d.csv'' [[0, - 1]] = Inr (''d-log.csv'', [[NegInf, NaN]])"
  by (simp add: transform_def np_log_def)

lemma getPCA_fit_fails: "ft T = Inl e \<Longrightarrow> getPCA ft T = Inl e"
  by (simp add: getPCA_def)

text \<open>
  C4, amended.  The log step always returns a table \<open>T\<close> of the shape of the input, in
  which an entry above 0 has become its natural logarithm, an entry 0 has become
  \<open>-inf\<close> and an entry below 0 has become NaN.  \<open>main\<close> hands that table to
  \<open>getPCA\<close>, whose decomposition call gets it as it is: when that call raises on
  \<open>T\<close>, the run ends with its exception.
\<close>

theorem log_transform_never_fails:
  "\<exists>T. transform False True csvPath dfData =
            Inr (py_replace ''.csv'' ''-log.csv'' csvPath, T) \<and>
        main_getPCA ft False True csvPath dfData =
            and_then (getPCA ft T) (\<lambda>out. Inr (py_replace ''.csv'' ''-log.csv'' csvPath, out)) \<and>
        (\<forall>e. ft T = Inl e \<longrightarrow> main_getPCA ft False True csvPath dfData = Inl e) \<and>
        length T = length dfData \<and>
        (\<forall>i < length dfData. length (T ! i) = length (dfData ! i) \<and>
           (\<forall>j < length (dfData ! i).
              (0 < dfData ! i ! j \<longrightarrow> T ! i ! j = Fin (ln (dfData ! i ! j))) \<and>
              (dfData ! i ! j = 0 \<longrightarrow> T ! i ! j = NegInf) \<and>
              (dfData ! i ! j < 0 \<longrightarrow> T ! i ! j = NaN)))"
proof -
  let ?T = "map (map np_log) dfData"
  have 1: "transform False True csvPath dfData =
            Inr (py_replace ''.csv'' ''-log.csv'' csvPath, ?T)"
    by (simp add: transform_def)
  have 2: "main_getPCA ft False True csvPath dfData =
            and_then (getPCA ft ?T) (\<lambda>out. Inr (py_replace ''.csv'' ''-log.csv'' csvPath, out))"
    by (simp add: main_getPCA_def 1 and_then_def)
  have 3: "main_getPCA ft False True csvPath dfData = Inl e" if "ft ?T = Inl e" for e
    using getPCA_fit_fails [of ft ?T e] that by (simp add: 2 and_then_def)
  have 4: "length (?T ! i) = length (dfData ! i) \<and>
           (\<forall>j < length (dfData ! i).
              (0 < dfData ! i ! j \<longrightarrow> ?T ! i ! j = Fin (ln (dfData ! i ! j))) \<and>
              (dfData ! i ! j = 0 \<longrightarrow> ?T ! i ! j = NegInf) \<and>
              (dfData ! i ! j < 0 \<longrightarrow> ?T ! i ! j = NaN))" if "i < length dfData" for i
    using that by (simp add: np_log_def)
  show ?thesis using 1 2 3 4 by (intro exI [of _ ?T]) simp
qed

theorem log_transform_never_fails_witness:
  "transform False True ''d.csv'' [[1, 0, - 1]] = Inr (''d-log.csv'', [[Fin 0, NegInf, NaN]]) \<and>
   main_getPCA (\<lambda>T. Inl ValueError) False True ''d.csv'' [[1, 0, - 1]] = Inl ValueError"
proof -
  have e: "transform False True ''d.csv'' [[1, 0, - 1]] =
      Inr (''d-log.csv'', [[Fin 0, NegInf, NaN]])"
    by (simp add: transform_def np_log_def)
  obtain T where
    "\<forall>e. (\<lambda>T. Inl ValueError :: error + (pca \<times> real list list)) T = Inl e \<longrightarrow>
       main_getPCA (\<lambda>T. Inl ValueError) False True ''d.csv'' [[1, 0, - 1]] = Inl e"
    using log_transform_never_fails [of "''d.csv''" "[[1, 0, - 1]]" "\<lambda>T. Inl ValueError"]
    by blast
  then have "main_getPCA (\<lambda>T. Inl ValueError) False True ''d.csv'' [[1, 0, - 1]] = Inl ValueError"
    by simp
  then show ?thesis using e by simp
qed

lemma rect_ncols: "rect n p X \<Longrightarrow> 0 < n \<Longrightarrow> ncols X = p"
  by (cases X) (auto simp: rect_def ncols_def)

lemma rect_row: "rect n p X \<Longrightarrow> i < n \<Longrightarrow> length (X ! i) = p"
  by (auto simp: rect_def list_all_length)







text \<open>A column that is not constant, but is taken for constant: it is only centred.\<close>

lemma near_constant_example:
  "StandardScaler_fit_transform [[2 ^ 60 - 256], [2 ^ 60 + 256]] = Inr [[- 256], [256]]"
  by (simp add: StandardScaler_fit_transform_def ncols_def col_def mean_def scale_def
      is_constant_feature_def eps_def pvar_def)

section \<open>The decomposition\<close>

lemma np_transpose_length: "length (np_transpose C) = ncols C"
  by (simp add: np_transpose_def)

lemma getPCA_result:
  "getPCA ft T =
     and_then (ft T) (\<lambda>(p, S).
       and_then (np_dot T (np_transpose (components p))) (\<lambda>raw.
         Inr \<lparr>X_r = S, PCs = explained_variance_ratio p, loadings = components p,
              coeffVectorNorms = norm_axis0 (np_transpose (components p)),
              dotProduct = np_allclose raw S\<rparr>))"
  by (auto simp: getPCA_def and_then_def split: sum.splits prod.splits)

text \<open>
  C6, as the claim states it, fails: \<open>getPCA\<close> has no check of the number of samples.
  For a table of one sample and one feature scikit-learn returns the loading 1 or -1,
  the score 0 and the ratio NaN, and \<open>getPCA\<close> returns them.
\<close>

theorem getPCA_one_sample_counterexample:
  "getPCA (\<lambda>T. Inr (\<lparr>components = [[1]], explained_variance_ratio = [NaN]\<rparr>, [[0]]))
      [[Fin 5]] =
     Inr \<lparr>X_r = [[0]], PCs = [NaN], loadings = [[1]], coeffVectorNorms = [1],
          dotProduct = False\<rparr> \<and>
   getPCA (\<lambda>T. Inr (\<lparr>components = [[- 1]], explained_variance_ratio = [NaN]\<rparr>, [[0]]))
      [[Fin 5]] =
     Inr \<lparr>X_r = [[0]], PCs = [NaN], loadings = [[- 1]], coeffVectorNorms = [1],
          dotProduct = False\<rparr>"
  by (simp add: getPCA_def np_dot_def np_transpose_def norm_axis0_def ncols_def col_def
      np_allclose_def fsum_def to_double_mid)

text \<open>
  C6, amended.  \<open>getPCA\<close> checks neither the number of samples nor the number of
  features.  It raises exactly when the decomposition call raises on the table, with
  that exception, or when the loadings do not have as many columns as the table, with
  the \<open>ValueError\<close> of the matrix product.  Whenever the call returns loadings with as
  many columns as the table, \<open>getPCA\<close> returns its scores, loadings and ratios.
\<close>

theorem getPCA_no_size_check:
  "(getPCA ft T = Inl e) =
     (ft T = Inl e \<or>
      (\<exists>p S. ft T = Inr (p, S) \<and> ncols T \<noteq> ncols (components p) \<and> e = ValueError)) \<and>
   (ft T = Inr (p, S) \<and> ncols T = ncols (components p) \<longrightarrow>
      (\<exists>out. getPCA ft T = Inr out \<and> X_r out = S \<and> loadings out = components p \<and>
             PCs out = explained_variance_ratio p))"
  by (auto simp: getPCA_result and_then_def np_dot_def np_transpose_length
      split: sum.splits prod.splits)

theorem getPCA_no_size_check_witness:
  "ncols [[Fin 1], [Fin 3]] = ncols [[1 :: real]] \<and>
   (\<exists>out. getPCA (\<lambda>T. Inr (\<lparr>components = [[1]], explained_variance_ratio = [Fin 1]\<rparr>,
                          [[- 1], [1]])) [[Fin 1], [Fin 3]] = Inr out \<and>
      X_r out = [[- 1], [1]] \<and> loadings out = [[1]] \<and> PCs out = [Fin 1]) \<and>
   getPCA (\<lambda>T. Inl ValueError) [] = Inl ValueError"
proof -
  have n: "ncols [[Fin 1], [Fin 3]] = ncols [[1 :: real]]" by (simp add: ncols_def)
  have a: "\<exists>out. getPCA (\<lambda>T. Inr (\<lparr>components = [[1]], explained_variance_ratio = [Fin 1]\<rparr>,
                          [[- 1], [1]])) [[Fin 1], [Fin 3]] = Inr out \<and>
      X_r out = [[- 1], [1]] \<and> loadings out = [[1]] \<and> PCs out = [Fin 1]"
    using n getPCA_no_size_check [of
        "\<lambda>T. Inr (\<lparr>components = [[1]], explained_variance_ratio = [Fin 1]\<rparr>, [[- 1], [1]])"
        "[[Fin 1], [Fin 3]]" ValueError "\<lparr>components = [[1]], explained_variance_ratio = [Fin 1]\<rparr>"
        "[[- 1], [1]]"]
    by simp
  have b: "getPCA (\<lambda>T. Inl ValueError) [] = Inl ValueError"
    using getPCA_no_size_check [of "\<lambda>T. Inl ValueError" "[]" ValueError] by simp
  show ?thesis using n a b by blast
qed








text \<open>
  The norms that \<open>getPCA\<close> prints are those of the rows of the loadings: the norm along
  axis 0 of the transposed array.
\<close>

lemma norms_over_rows:
  assumes "rect k m C" and "0 < k" and "0 < m"
  shows "norm_axis0 (np_transpose C) = map (\<lambda>r. sqrt (sum_list (map (\<lambda>x. x\<^sup>2) r))) C"
proof -
  have nc: "ncols C = m" using assms(1,2) by (rule rect_ncols)
  have len: "length C = k" using assms(1) by (simp add: rect_def)
  have "np_transpose C = col C 0 # map (col C) [1..<m]"
    using assms(3) by (simp add: np_transpose_def nc upt_conv_Cons)
  then have nt: "ncols (np_transpose C) = k"
    by (simp add: ncols_def col_def len)
  have c: "col (np_transpose C) j = C ! j" if "j < k" for j
  proof -
    have "length (C ! j) = m" using assms(1) that by (rule rect_row)
    then show ?thesis
      using that len by (simp add: col_def np_transpose_def nc list_eq_iff_nth_eq)
  qed
  have "map (\<lambda>j. sqrt (sum_list (map (\<lambda>x. x\<^sup>2) (col (np_transpose C) j)))) [0..<k] =
        map (\<lambda>j. sqrt (sum_list (map (\<lambda>x. x\<^sup>2) (C ! j)))) [0..<k]"
    by (rule map_cong) (simp_all add: c)
  also have "\<dots> = map (\<lambda>r. sqrt (sum_list (map (\<lambda>x. x\<^sup>2) r))) (map ((!) C) [0..<k])"
    by (simp add: comp_def)
  also have "map ((!) C) [0..<k] = C" unfolding len [symmetric] by (rule map_nth)
  finally show ?thesis by (simp add: norm_axis0_def nt)
qed

end
